theory Spec2Isabelle
  imports Complex_Main "HOL-Library.Word" "HOL-Library.Mapping"
begin

section \<open>Message search of the Postgres memory store\<close>

text \<open>
  A shallow embedding of \<^verbatim>\<open>searchMessages\<close> and its helpers (package \<^verbatim>\<open>postgres\<close>)
  together with the payload and result types of \<^verbatim>\<open>pkg/models/search.go\<close>.

  The Go code builds a query description with the bun query builder, hands it to the
  database, filters the rows and optionally reranks them. The model keeps the query
  description as data (the SQL fragments and their bound arguments, in the order the
  builder receives them), so that statements about "the query sent to storage" are
  statements about a value.
\<close>

subsection \<open>Numbers\<close>

text \<open>
  Go's \<^verbatim>\<open>int\<close> is a 64-bit two's complement integer on the platforms the server runs
  on; \<^verbatim>\<open>*\<close> wraps around.
\<close>

type_synonym go_int = "64 word"

text \<open>
  The conversion \<^verbatim>\<open>int32(n)\<close> of an \<^verbatim>\<open>int\<close> keeps the low 32 bits, read as a signed
  number.
\<close>

type_synonym go_int32 = "32 word"

definition int32 :: "go_int \<Rightarrow> go_int32" where
  "int32 n = word_of_int (sint n)"

text \<open>
  \<^verbatim>\<open>float32\<close> and \<^verbatim>\<open>float64\<close> values. The code under study only compares a float
  with zero, asks whether it is NaN and passes it on, so a float is modelled by the number
  it denotes, with the special values kept apart. Both zeros are \<open>Finite 0\<close>: Go's
  \<^verbatim>\<open>==\<close> does not tell them apart.
\<close>

datatype go_float = NaN | PosInf | NegInf | Finite real

definition IsNaN :: "go_float \<Rightarrow> bool" where
  "IsNaN f = (case f of NaN \<Rightarrow> True | _ \<Rightarrow> False)"

type_synonym vec = "go_float list"

subsection \<open>Values, errors and outcomes\<close>

text \<open>
  The values an \<^verbatim>\<open>interface{}\<close> holds after a request body has been decoded from JSON.
\<close>

datatype jvalue =
    JNull
  | JBool bool
  | JNumber go_float
  | JString string
  | JArray "jvalue list"
  | JObject "(string \<times> jvalue) list"

text \<open>
  Errors are values. \<^verbatim>\<open>store.NewStorageError(msg, err)\<close> wraps an optional cause,
  \<^verbatim>\<open>errors.New(msg)\<close> is a plain error, and \<open>External\<close> stands for the errors that the
  collaborators (embedding provider, database, JSON codec, reranker) return.
\<close>

datatype error =
    StorageError string "error option"
  | ErrorsNew string
  | External string

definition NewStorageError :: "string \<Rightarrow> error option \<Rightarrow> error" where
  "NewStorageError msg cause = StorageError msg cause"

text \<open>
  A Go function with result \<^verbatim>\<open>(T, error)\<close> either returns a value, returns an error
  (the code below always pairs an error with the zero value of \<^verbatim>\<open>T\<close>), or panics.
\<close>

datatype 'a result = Ok 'a | Err error | Panic string

subsection \<open>\<^verbatim>\<open>pkg/models/search.go\<close>\<close>

type_synonym SearchType = string

definition SearchTypeSimilarity :: SearchType where
  "SearchTypeSimilarity = ''similarity''"

definition SearchTypeMMR :: SearchType where
  "SearchTypeMMR = ''mmr''"

text \<open>
  \<^verbatim>\<open>Message\<close> and \<^verbatim>\<open>Summary\<close> are declared elsewhere in \<^verbatim>\<open>models\<close>; the search code
  never looks inside them, so they are type parameters. Both fields are pointers.
  The field \<^verbatim>\<open>Metadata\<close> of a result is written \<open>ResultMetadata\<close>, since the payload
  has a field of the same name.
\<close>

record ('m, 's) MemorySearchResult =
  Message :: "'m option"
  Summary :: "'s option"
  ResultMetadata :: "(string, jvalue) mapping"
  Dist :: go_float
  Embedding :: vec

record MemorySearchPayload =
  Text :: string
  Metadata :: "(string, jvalue) mapping"
  Type :: SearchType
  MMRLambda :: go_float

text \<open>\<^verbatim>\<open>len(m)\<close> of a map, compared with zero. A nil map is the empty mapping.\<close>

definition len_is_zero :: "(string, jvalue) mapping \<Rightarrow> bool" where
  "len_is_zero m = Mapping.is_empty m"

subsection \<open>The query builder\<close>

text \<open>
  A bun query fragment is an SQL template with \<^verbatim>\<open>?\<close> placeholders and the arguments
  bound to them.
\<close>

datatype arg = ArgString string | ArgValue jvalue | ArgVector vec

type_synonym fragment = "string \<times> arg list"

text \<open>
  A condition of the \<^verbatim>\<open>WHERE\<close> clause carries the separator that joins it to the
  conditions before it (\<^verbatim>\<open>Where\<close> uses \<^verbatim>\<open>" AND "\<close>, \<^verbatim>\<open>WhereOr\<close> uses \<^verbatim>\<open>" OR "\<close>);
  \<^verbatim>\<open>WhereGroup\<close> nests conditions in parentheses.
\<close>

datatype cond =
    Cond string string "arg list"
  | Group string "cond list"

record join =
  joinExpr :: fragment
  joinOn :: "cond list"

record SelectQuery =
  tables :: "fragment list"
  joins :: "join list"
  columns :: "fragment list"
  wheres :: "cond list"
  orders :: "string list"
  limitRows :: go_int32

text \<open>
  The builder methods the code calls. In bun each of them changes the query it is called
  on and returns that same query; the model returns the changed query.
\<close>

definition NewSelect :: SelectQuery where
  "NewSelect = \<lparr>tables = [], joins = [], columns = [], wheres = [], orders = [],
     limitRows = 0\<rparr>"

definition TableExpr :: "SelectQuery \<Rightarrow> string \<Rightarrow> arg list \<Rightarrow> SelectQuery" where
  "TableExpr q t args = q\<lparr>tables := tables q @ [(t, args)]\<rparr>"

definition Join :: "SelectQuery \<Rightarrow> string \<Rightarrow> arg list \<Rightarrow> SelectQuery" where
  "Join q j args = q\<lparr>joins := joins q @ [\<lparr>joinExpr = (j, args), joinOn = []\<rparr>]\<rparr>"

text \<open>\<^verbatim>\<open>JoinOn\<close> adds a condition to the join added last; without a join it adds nothing.\<close>

definition JoinOn :: "SelectQuery \<Rightarrow> string \<Rightarrow> arg list \<Rightarrow> SelectQuery" where
  "JoinOn q c args =
     (case rev (joins q) of
        [] \<Rightarrow> q
      | j # js \<Rightarrow>
          q\<lparr>joins := rev js @ [j\<lparr>joinOn := joinOn j @ [Cond '' AND '' c args]\<rparr>]\<rparr>)"

definition ColumnExpr :: "SelectQuery \<Rightarrow> string \<Rightarrow> arg list \<Rightarrow> SelectQuery" where
  "ColumnExpr q c args = q\<lparr>columns := columns q @ [(c, args)]\<rparr>"

definition Where :: "SelectQuery \<Rightarrow> string \<Rightarrow> arg list \<Rightarrow> SelectQuery" where
  "Where q c args = q\<lparr>wheres := wheres q @ [Cond '' AND '' c args]\<rparr>"

definition Order :: "SelectQuery \<Rightarrow> string \<Rightarrow> SelectQuery" where
  "Order q ord = q\<lparr>orders := orders q @ [ord]\<rparr>"

text \<open>
  bun keeps the limit of a query in a field of type \<^verbatim>\<open>int32\<close>, zero for a new query:
  \<^verbatim>\<open>Limit(n)\<close> stores \<^verbatim>\<open>int32(n)\<close>. The query that goes to the database has a
  \<^verbatim>\<open>LIMIT\<close> clause only when the stored value is positive; \<open>limitClause\<close> is the number
  of rows that clause requests, if there is one.
\<close>

definition Limit :: "SelectQuery \<Rightarrow> go_int \<Rightarrow> SelectQuery" where
  "Limit q n = q\<lparr>limitRows := int32 n\<rparr>"

definition limitClause :: "SelectQuery \<Rightarrow> int option" where
  "limitClause q = (if 0 < sint (limitRows q) then Some (sint (limitRows q)) else None)"

text \<open>
  \<^verbatim>\<open>bun.QueryBuilder\<close> is the interface through which conditions are added to a query
  (\<^verbatim>\<open>Where\<close>, \<^verbatim>\<open>WhereOr\<close>, \<^verbatim>\<open>WhereGroup\<close>); \<^verbatim>\<open>dbQuery.QueryBuilder()\<close> wraps the query
  and \<^verbatim>\<open>Unwrap\<close> gives the same query back. The model of a query builder is the list of
  conditions of the wrapped query.
\<close>

type_synonym QueryBuilder = "cond list"

definition QueryBuilderOf :: "SelectQuery \<Rightarrow> QueryBuilder" where
  "QueryBuilderOf q = wheres q"

definition Unwrap :: "SelectQuery \<Rightarrow> QueryBuilder \<Rightarrow> SelectQuery" where
  "Unwrap q qb = q\<lparr>wheres := qb\<rparr>"

definition qbWhere :: "QueryBuilder \<Rightarrow> string \<Rightarrow> arg list \<Rightarrow> QueryBuilder" where
  "qbWhere qb c args = qb @ [Cond '' AND '' c args]"

subsection \<open>What the code uses and declares elsewhere\<close>

text \<open>
  \<^verbatim>\<open>JSONQuery\<close> is the shape a \<^verbatim>\<open>where\<close> filter is decoded into; the children are
  pointers.
\<close>

datatype JSONQuery =
  JSONQuery (JSONPath: string) (And: "JSONQuery option list") (Or: "JSONQuery option list")

text \<open>
  Modelled from the spec: the constant \<^verbatim>\<open>DefaultMMRLambda\<close> is used by
  \<^verbatim>\<open>searchMessages\<close> and declared in another file of the package, which is not
  modelled here. The spec describes it as a fixed constant between 0 and 1 whose source
  value is about 0.5.
\<close>

definition DefaultMMRLambda :: go_float where
  "DefaultMMRLambda = Finite (1 / 2)"

text \<open>
  The remaining names are parameters of the model:
  \<^item> \<open>DefaultMMRMultiplier\<close>, a constant declared in another file of the package
    (the spec gives no single value for it);
  \<^item> \<open>GetEmbeddingModel\<close> and \<open>EmbedTexts\<close> of package \<^verbatim>\<open>llms\<close>;
  \<^item> \<open>Scan\<close>, the execution of a query by the database (it stands for
    \<^verbatim>\<open>dbQuery.Scan(ctx, &results)\<close>, so it also covers the connection \<^verbatim>\<open>db\<close> and the
    context \<^verbatim>\<open>ctx\<close>, which the code only passes on);
  \<^item> \<open>MaximalMarginalRelevance\<close> of package \<^verbatim>\<open>search\<close>, which returns indices into
    the list of embeddings;
  \<^item> \<open>jsonMarshal\<close> and \<open>jsonUnmarshal\<close>, the JSON codec at the types the code
    uses it;
  \<^item> \<open>parseJSONQuery\<close>, the recursive filter compiler of the package; it receives and
    returns a \<^verbatim>\<open>bun.QueryBuilder\<close>.
  The type parameter \<open>'a\<close> is \<^verbatim>\<open>models.AppState\<close> and \<open>'e\<close> the embedding model
  configuration.
\<close>

record ('a, 'e, 'm, 's) deps =
  DefaultMMRMultiplier :: go_int
  GetEmbeddingModel :: "'a \<Rightarrow> string \<Rightarrow> error + 'e"
  EmbedTexts :: "'a \<Rightarrow> 'e \<Rightarrow> string \<Rightarrow> string list \<Rightarrow> error + vec list"
  Scan :: "SelectQuery \<Rightarrow> ('m, 's) MemorySearchResult list \<times> error option"
  MaximalMarginalRelevance :: "vec \<Rightarrow> vec list \<Rightarrow> go_float \<Rightarrow> go_int \<Rightarrow> error + go_int list"
  jsonMarshal :: "jvalue \<Rightarrow> error + string"
  jsonUnmarshal :: "string \<Rightarrow> error + JSONQuery"
  parseJSONQuery :: "QueryBuilder \<Rightarrow> JSONQuery \<Rightarrow> bool \<Rightarrow> string \<Rightarrow> QueryBuilder"

subsection \<open>The helpers of \<^verbatim>\<open>searchMessages\<close>\<close>

definition DefaultMemorySearchLimit :: go_int where
  "DefaultMemorySearchLimit = 10"

definition buildMessagesSelectQuery :: "MemorySearchPayload \<Rightarrow> SelectQuery" where
  "buildMessagesSelectQuery query =
     (let dbQuery =
        ColumnExpr (ColumnExpr (ColumnExpr (ColumnExpr (ColumnExpr (ColumnExpr
          (JoinOn (Join (TableExpr NewSelect ''message_embedding AS me'' [])
             ''JOIN message AS m'' []) ''me.message_uuid = m.uuid'' [])
          ''m.uuid AS message__uuid'' [])
          ''m.created_at AS message__created_at'' [])
          ''m.role AS message__role'' [])
          ''m.content AS message__content'' [])
          ''m.metadata AS message__metadata'' [])
          ''m.token_count AS message__token_count'' []
      in if Type query = SearchTypeMMR
         then ColumnExpr dbQuery ''me.embedding AS embedding'' []
         else dbQuery)"

text \<open>
  \<^verbatim>\<open>e[0]\<close> panics when the provider returns no vector and no error.
\<close>

definition addMessagesVectorColumn ::
  "('a, 'e, 'm, 's) deps \<Rightarrow> 'a \<Rightarrow> SelectQuery \<Rightarrow> string \<Rightarrow> (SelectQuery \<times> vec) result" where
  "addMessagesVectorColumn d appState q queryText =
     (let documentType = ''message'' in
      case GetEmbeddingModel d appState documentType of
        Inl err \<Rightarrow> Err (NewStorageError ''failed to get message embedding model'' (Some err))
      | Inr model \<Rightarrow>
          (case EmbedTexts d appState model documentType [queryText] of
             Inl err \<Rightarrow> Err (NewStorageError ''failed to embed query'' (Some err))
           | Inr e \<Rightarrow>
               (case e of
                  [] \<Rightarrow> Panic ''index out of range''
                | e0 # _ \<Rightarrow>
                    Ok (ColumnExpr q ''(embedding <#> ?) * -1 AS dist'' [ArgVector e0], e0))))"

definition addMessageDateFilters ::
  "QueryBuilder \<Rightarrow> (string, jvalue) mapping \<Rightarrow> QueryBuilder" where
  "addMessageDateFilters qb m =
     (let qb1 = (case Mapping.lookup m ''start_date'' of
                   Some startDate \<Rightarrow> qbWhere qb ''m.created_at >= ?'' [ArgValue startDate]
                 | None \<Rightarrow> qb)
      in case Mapping.lookup m ''end_date'' of
           Some endDate \<Rightarrow> qbWhere qb1 ''m.created_at <= ?'' [ArgValue endDate]
         | None \<Rightarrow> qb1)"

definition applyMessagesMetadataFilter ::
  "('a, 'e, 'm, 's) deps \<Rightarrow> SelectQuery \<Rightarrow> (string, jvalue) mapping \<Rightarrow> SelectQuery result" where
  "applyMessagesMetadataFilter d dbQuery metadata =
     (let qb = QueryBuilderOf dbQuery in
      case (case Mapping.lookup metadata ''where'' of
              Some where_v \<Rightarrow>
                (case jsonMarshal d where_v of
                   Inl err \<Rightarrow> Err (NewStorageError ''error marshalling metadata'' (Some err))
                 | Inr j \<Rightarrow>
                     (case jsonUnmarshal d j of
                        Inl err \<Rightarrow>
                          Err (NewStorageError ''error unmarshalling metadata'' (Some err))
                      | Inr jq \<Rightarrow> Ok (parseJSONQuery d qb jq False ''m'')))
            | None \<Rightarrow> Ok qb) of
        Ok qb1 \<Rightarrow> Ok (Unwrap dbQuery (addMessageDateFilters qb1 metadata))
      | Err err \<Rightarrow> Err err
      | Panic p \<Rightarrow> Panic p)"

definition addMessagesSortQuery :: "string \<Rightarrow> SelectQuery \<Rightarrow> SelectQuery" where
  "addMessagesSortQuery searchText dbQuery =
     (if searchText \<noteq> '''' then Order dbQuery ''dist DESC''
      else Order dbQuery ''m.created_at DESC'')"

definition executeMessagesSearchScan ::
  "('a, 'e, 'm, 's) deps \<Rightarrow> SelectQuery \<Rightarrow> ('m, 's) MemorySearchResult list \<times> error option" where
  "executeMessagesSearchScan d dbQuery = Scan d dbQuery"

text \<open>The loop of \<^verbatim>\<open>filterValidMessageSearchResults\<close>, with its accumulator.\<close>

fun filterValidLoop ::
  "('m, 's) MemorySearchResult list \<Rightarrow> (string, jvalue) mapping \<Rightarrow>
   ('m, 's) MemorySearchResult list \<Rightarrow> ('m, 's) MemorySearchResult list" where
  "filterValidLoop [] metadata filteredResults = filteredResults"
| "filterValidLoop (result # results) metadata filteredResults =
     (if \<not> IsNaN (Dist result) \<or> \<not> len_is_zero metadata
      then filterValidLoop results metadata (filteredResults @ [result])
      else filterValidLoop results metadata filteredResults)"

definition filterValidMessageSearchResults ::
  "('m, 's) MemorySearchResult list \<Rightarrow> (string, jvalue) mapping \<Rightarrow>
   ('m, 's) MemorySearchResult list" where
  "filterValidMessageSearchResults results metadata = filterValidLoop results metadata []"

text \<open>
  \<^verbatim>\<open>results[idx]\<close> panics when the reranker returns an index outside the results.
\<close>

definition index_ok :: "'x list \<Rightarrow> go_int \<Rightarrow> bool" where
  "index_ok xs idx = (0 \<le> sint idx \<and> sint idx < int (length xs))"

definition rerankMMR ::
  "('a, 'e, 'm, 's) deps \<Rightarrow> ('m, 's) MemorySearchResult list \<Rightarrow> vec \<Rightarrow> go_float \<Rightarrow> go_int \<Rightarrow>
   ('m, 's) MemorySearchResult list result" where
  "rerankMMR d results queryEmbedding lambda limit =
     (let embeddingList = map Embedding results in
      case MaximalMarginalRelevance d queryEmbedding embeddingList lambda limit of
        Inl err \<Rightarrow> Err (NewStorageError ''error applying mmr'' (Some err))
      | Inr rerankedIdxs \<Rightarrow>
          if list_all (index_ok results) rerankedIdxs
          then Ok (map (\<lambda>idx. results ! nat (sint idx)) rerankedIdxs)
          else Panic ''index out of range'')"

subsection \<open>\<^verbatim>\<open>searchMessages\<close>\<close>

text \<open>
  What a call of \<^verbatim>\<open>searchMessages\<close> leaves behind:
  \<^item> \<open>payload\<close>: the \<^verbatim>\<open>MemorySearchPayload\<close> that the pointer \<^verbatim>\<open>query\<close> refers to, as
    it is after the call (the code assigns to one of its fields);
  \<^item> \<open>executed\<close>: the query handed to \<^verbatim>\<open>executeMessagesSearchScan\<close>, if the call got
    that far;
  \<^item> \<open>reranked\<close>: the \<^verbatim>\<open>lambda\<close> and \<^verbatim>\<open>limit\<close> handed to \<^verbatim>\<open>rerankMMR\<close>, if the call
    got that far;
  \<^item> \<open>outcome\<close>: the returned results (\<open>Ok\<close>), the returned error with nil results
    (\<open>Err\<close>), or a panic.
\<close>

record ('m, 's) run =
  payload :: "MemorySearchPayload option"
  executed :: "SelectQuery option"
  reranked :: "(go_float \<times> go_int) option"
  outcome :: "('m, 's) MemorySearchResult list result"

text \<open>
  Lines 41 to 79 of \<^verbatim>\<open>searchMessages\<close>: the assembly of the query, for a payload and an
  application state that are not nil. It yields the payload after the assignment to
  \<^verbatim>\<open>query.MMRLambda\<close>, the assembled query, the query embedding (nil for an empty text) and
  the limit after defaulting.
\<close>

definition assembleQuery ::
  "('a, 'e, 'm, 's) deps \<Rightarrow> 'a \<Rightarrow> string \<Rightarrow> MemorySearchPayload \<Rightarrow> go_int \<Rightarrow>
   (MemorySearchPayload \<times> SelectQuery \<times> vec \<times> go_int) result" where
  "assembleQuery d appState sessionID query limit =
     (let dbQuery = buildMessagesSelectQuery query in
      case (if Text query \<noteq> ''''
            then addMessagesVectorColumn d appState dbQuery (Text query)
            else Ok (dbQuery, [])) of
        Err err \<Rightarrow> Err (NewStorageError ''error adding vector column'' (Some err))
      | Panic p \<Rightarrow> Panic p
      | Ok (dbQuery1, queryEmbedding) \<Rightarrow>
          (case (if \<not> len_is_zero (Metadata query)
                 then applyMessagesMetadataFilter d dbQuery1 (Metadata query)
                 else Ok dbQuery1) of
             Err err \<Rightarrow> Err (NewStorageError ''error applying metadata filter'' (Some err))
           | Panic p \<Rightarrow> Panic p
           | Ok dbQuery2 \<Rightarrow>
               (let dbQuery3 = Where dbQuery2 ''m.session_id = ?'' [ArgString sessionID];
                    dbQuery4 = Where dbQuery3 ''m.deleted_at IS NULL'' [];
                    dbQuery5 = addMessagesSortQuery (Text query) dbQuery4;
                    limit1 = (if limit = 0 then DefaultMemorySearchLimit else limit)
                in if Type query = SearchTypeMMR
                   then Ok ((if MMRLambda query = Finite 0
                             then query\<lparr>MMRLambda := DefaultMMRLambda\<rparr>
                             else query),
                            Limit dbQuery5 (limit1 * DefaultMMRMultiplier d),
                            queryEmbedding, limit1)
                   else Ok (query, Limit dbQuery5 limit1, queryEmbedding, limit1))))"

definition searchMessages ::
  "('a, 'e, 'm, 's) deps \<Rightarrow> 'a option \<Rightarrow> string \<Rightarrow> MemorySearchPayload option \<Rightarrow> go_int \<Rightarrow>
   ('m, 's) run" where
  "searchMessages d appState sessionID query limit =
     (case (query, appState) of
        (None, _) \<Rightarrow>
          \<lparr>payload = query, executed = None, reranked = None,
           outcome = Err (NewStorageError ''nil query or appState received'' None)\<rparr>
      | (Some q, None) \<Rightarrow>
          \<lparr>payload = query, executed = None, reranked = None,
           outcome = Err (NewStorageError ''nil query or appState received'' None)\<rparr>
      | (Some q, Some a) \<Rightarrow>
          if Text q = '''' \<and> len_is_zero (Metadata q)
          then \<lparr>payload = query, executed = None, reranked = None,
                 outcome = Err (NewStorageError ''empty query''
                                  (Some (ErrorsNew ''empty query'')))\<rparr>
          else
            (case assembleQuery d a sessionID q limit of
               Err err \<Rightarrow>
                 \<lparr>payload = query, executed = None, reranked = None, outcome = Err err\<rparr>
             | Panic p \<Rightarrow>
                 \<lparr>payload = query, executed = None, reranked = None, outcome = Panic p\<rparr>
             | Ok (q1, dbQuery, queryEmbedding, limit1) \<Rightarrow>
                 (case executeMessagesSearchScan d dbQuery of
                    (results, Some err) \<Rightarrow>
                      \<lparr>payload = Some q1, executed = Some dbQuery, reranked = None,
                       outcome = Err (NewStorageError ''memory searchMessages failed''
                                        (Some err))\<rparr>
                  | (results, None) \<Rightarrow>
                      (let filteredResults =
                             filterValidMessageSearchResults results (Metadata q1)
                       in if Type q1 = SearchTypeMMR
                          then \<lparr>payload = Some q1, executed = Some dbQuery,
                                 reranked = Some (MMRLambda q1, limit1),
                                 outcome =
                                   (case rerankMMR d filteredResults queryEmbedding
                                           (MMRLambda q1) limit1 of
                                      Ok rs \<Rightarrow> Ok rs
                                    | Err err \<Rightarrow>
                                        Err (NewStorageError ''error applying mmr'' (Some err))
                                    | Panic p \<Rightarrow> Panic p)\<rparr>
                          else \<lparr>payload = Some q1, executed = Some dbQuery, reranked = None,
                                 outcome = Ok filteredResults\<rparr>))))"

subsection \<open>The value of the distance projection\<close>

text \<open>
  The code does not compute a distance; it adds the projection
  \<^verbatim>\<open>(embedding <#> ?) * -1 AS dist\<close> with the query vector bound to the placeholder, and
  the database computes the value for each row. In pgvector the operator \<^verbatim>\<open><#>\<close> is the
  negative inner product: the negation of the inner product of its operands. Multiplying a
  float by \<^verbatim>\<open>-1\<close> flips its sign. The inner product as the database computes it in floating
  point is the parameter \<open>ip\<close> below.
\<close>

fun float_neg :: "go_float \<Rightarrow> go_float" where
  "float_neg NaN = NaN"
| "float_neg PosInf = NegInf"
| "float_neg NegInf = PosInf"
| "float_neg (Finite x) = Finite (- x)"

definition negative_inner_product :: "(vec \<Rightarrow> vec \<Rightarrow> go_float) \<Rightarrow> vec \<Rightarrow> vec \<Rightarrow> go_float" where
  "negative_inner_product ip a b = float_neg (ip a b)"

definition times_minus_one :: "go_float \<Rightarrow> go_float" where
  "times_minus_one x = float_neg x"

text \<open>
  The value of a projection for a row with the stored embedding \<open>embedding\<close>; it is
  defined for the distance projection only.
\<close>

definition projection_value ::
  "(vec \<Rightarrow> vec \<Rightarrow> go_float) \<Rightarrow> fragment \<Rightarrow> vec \<Rightarrow> go_float option" where
  "projection_value ip col embedding =
     (case col of
        (t, [ArgVector v]) \<Rightarrow>
          if t = ''(embedding <#> ?) * -1 AS dist''
          then Some (times_minus_one (negative_inner_product ip embedding v))
          else None
      | _ \<Rightarrow> None)"

text \<open>
  The inner product of two vectors of finite components and equal length, where no
  rounding occurs (pgvector stores no other components and rejects operands of different
  length; the definition is used on such vectors only).
\<close>

fun finite_dot :: "vec \<Rightarrow> vec \<Rightarrow> real" where
  "finite_dot (Finite x # xs) (Finite y # ys) = x * y + finite_dot xs ys"
| "finite_dot _ _ = 0"

definition inner_product :: "vec \<Rightarrow> vec \<Rightarrow> go_float" where
  "inner_product a b = Finite (finite_dot a b)"

subsection \<open>The date conditions, as the specification words them\<close>

text \<open>
  Each bound that is present is one inequality on the creation timestamp, inclusive, joined
  with \<^verbatim>\<open>AND\<close>; the lower bound comes first.
\<close>

definition date_conditions :: "(string, jvalue) mapping \<Rightarrow> cond list" where
  "date_conditions m =
     (case Mapping.lookup m ''start_date'' of
        None \<Rightarrow> []
      | Some v \<Rightarrow> [Cond '' AND '' ''m.created_at >= ?'' [ArgValue v]]) @
     (case Mapping.lookup m ''end_date'' of
        None \<Rightarrow> []
      | Some v \<Rightarrow> [Cond '' AND '' ''m.created_at <= ?'' [ArgValue v]])"

subsection \<open>Sample collaborators and inputs\<close>

text \<open>
  A provider that embeds every text as the unit vector \<open>(1, 0)\<close>, a database that holds
  three rows (one of them with an undefined distance), a reranker that picks the rows 0
  and 1 for the parameter 0 and the rows 1 and 0 for any other parameter, a codec that decodes every filter to the leaf \<^verbatim>\<open>$.tag\<close>, and a filter compiler
  that adds one condition for the path of the node.
\<close>

definition sample_row :: "go_float \<Rightarrow> vec \<Rightarrow> (unit, unit) MemorySearchResult" where
  "sample_row d e =
     \<lparr>Message = Some (), Summary = None, ResultMetadata = Mapping.empty, Dist = d,
      Embedding = e\<rparr>"

definition sample_rows :: "(unit, unit) MemorySearchResult list" where
  "sample_rows =
     [sample_row (Finite 1) [Finite 1, Finite 0],
      sample_row NaN [Finite 0, Finite 0],
      sample_row (Finite 0) [Finite 0, Finite 1]]"

definition sample_deps :: "(unit, unit, unit, unit) deps" where
  "sample_deps =
     \<lparr>DefaultMMRMultiplier = 2,
      GetEmbeddingModel = (\<lambda>a documentType. Inr ()),
      EmbedTexts = (\<lambda>a model documentType texts. Inr (map (\<lambda>t. [Finite 1, Finite 0]) texts)),
      Scan = (\<lambda>q. (sample_rows, None)),
      MaximalMarginalRelevance =
        (\<lambda>qe embs lam k. if lam = Finite 0 then Inr [0, 1] else Inr [1, 0]),
      jsonMarshal = (\<lambda>v. Inr ''{}''),
      jsonUnmarshal = (\<lambda>j. Inr (JSONQuery ''$.tag'' [] [])),
      parseJSONQuery =
        (\<lambda>qb jq isOr tablePrefix.
           qb @ [Cond '' AND '' ''jsonb_path_exists(m.metadata, ?)'' [ArgString (JSONPath jq)]])\<rparr>"

definition text_query :: MemorySearchPayload where
  "text_query =
     \<lparr>Text = ''project deadline'', Metadata = Mapping.empty, Type = SearchTypeSimilarity,
      MMRLambda = Finite 0\<rparr>"

definition mmr_query :: MemorySearchPayload where
  "mmr_query =
     \<lparr>Text = ''project deadline'', Metadata = Mapping.empty, Type = SearchTypeMMR,
      MMRLambda = Finite 0\<rparr>"

definition dated_query :: MemorySearchPayload where
  "dated_query =
     \<lparr>Text = '''',
      Metadata = Mapping.update ''start_date'' (JString ''2023-01-01'')
                   (Mapping.update ''end_date'' (JString ''2023-12-31'') Mapping.empty),
      Type = SearchTypeSimilarity, MMRLambda = Finite 0\<rparr>"

definition empty_query :: MemorySearchPayload where
  "empty_query =
     \<lparr>Text = '''', Metadata = Mapping.empty, Type = SearchTypeSimilarity,
      MMRLambda = Finite 0\<rparr>"

section \<open>Properties\<close>

subsection \<open>Facts about the helpers\<close>

lemma buildMessagesSelectQuery_parts:
  "wheres (buildMessagesSelectQuery q) = []"
  "orders (buildMessagesSelectQuery q) = []"
  "limitRows (buildMessagesSelectQuery q) = 0"
  by (simp_all add: buildMessagesSelectQuery_def Let_def ColumnExpr_def JoinOn_def Join_def
      TableExpr_def NewSelect_def split: list.splits)

lemma addMessagesVectorColumn_Ok:
  assumes "addMessagesVectorColumn d a q t = Ok (q1, qe)"
  shows "q1 = ColumnExpr q ''(embedding <#> ?) * -1 AS dist'' [ArgVector qe]"
    and "\<exists>model vs. GetEmbeddingModel d a ''message'' = Inr model \<and>
           EmbedTexts d a model ''message'' [t] = Inr (qe # vs)"
  using assms
  by (auto simp: addMessagesVectorColumn_def Let_def split: sum.splits list.splits)

lemma addMessageDateFilters_eq:
  "addMessageDateFilters qb m = qb @ date_conditions m"
  by (simp add: addMessageDateFilters_def date_conditions_def qbWhere_def Let_def
      split: option.splits)

lemma date_conditions_empty:
  "len_is_zero m \<Longrightarrow> date_conditions m = []"
  by (auto simp: len_is_zero_def date_conditions_def Mapping.is_empty_def
      Mapping.keys_dom_lookup domIff split: option.splits)

lemma applyMessagesMetadataFilter_Ok:
  assumes "applyMessagesMetadataFilter d q m = Ok q1"
  shows "\<exists>tree. q1 = q\<lparr>wheres := tree @ date_conditions m\<rparr> \<and>
           (case Mapping.lookup m ''where'' of
              None \<Rightarrow> tree = wheres q
            | Some w \<Rightarrow>
                \<exists>j jq. jsonMarshal d w = Inr j \<and> jsonUnmarshal d j = Inr jq \<and>
                  tree = parseJSONQuery d (wheres q) jq False ''m'')"
  using assms
  by (auto simp: applyMessagesMetadataFilter_def Let_def Unwrap_def addMessageDateFilters_eq
      QueryBuilderOf_def split: option.splits sum.splits result.splits)

lemma projection_value_dist:
  "projection_value ip (''(embedding <#> ?) * -1 AS dist'', [ArgVector qe]) stored =
     Some (ip stored qe)"
  by (cases "ip stored qe")
    (simp_all add: projection_value_def times_minus_one_def negative_inner_product_def)

lemma sint_mult_no_overflow:
  fixes a b :: go_int
  assumes "- (2 ^ 63) \<le> sint a * sint b" and "sint a * sint b < 2 ^ 63"
  shows "sint (a * b) = sint a * sint b"
  using assms by (simp add: sint_word_ariths signed_take_bit_int_eq_self)

lemma sint_int32:
  "sint (int32 n) = signed_take_bit 31 (sint n)"
  by (simp only: int32_def sint_sbintrunc') simp

lemma int32_in_range:
  assumes "- (2 ^ 31) \<le> sint n" and "sint n < 2 ^ 31"
  shows "sint (int32 n) = sint n"
  using assms by (simp add: sint_int32 signed_take_bit_int_eq_self)

text \<open>What a successful assembly (lines 41 to 79) yields.\<close>

lemma assembleQuery_Ok:
  assumes "assembleQuery d a sessionID q limit = Ok (q1, dbq, qe, limit1)"
  shows "limit1 = (if limit = 0 then DefaultMemorySearchLimit else limit)"
    and "q1 = (if Type q = SearchTypeMMR \<and> MMRLambda q = Finite 0
               then q\<lparr>MMRLambda := DefaultMMRLambda\<rparr> else q)"
    and "limitRows dbq =
           int32 (if Type q = SearchTypeMMR then limit1 * DefaultMMRMultiplier d else limit1)"
    and "orders dbq = (if Text q \<noteq> '''' then [''dist DESC''] else [''m.created_at DESC''])"
    and "\<exists>tree. wheres dbq =
           tree @ date_conditions (Metadata q) @
             [Cond '' AND '' ''m.session_id = ?'' [ArgString sessionID],
              Cond '' AND '' ''m.deleted_at IS NULL'' []]"
    and "Text q \<noteq> '''' \<Longrightarrow>
           columns dbq = columns (buildMessagesSelectQuery q) @
             [(''(embedding <#> ?) * -1 AS dist'', [ArgVector qe])] \<and>
           (\<exists>model vs. GetEmbeddingModel d a ''message'' = Inr model \<and>
              EmbedTexts d a model ''message'' [Text q] = Inr (qe # vs))"
proof -
  obtain dbq1 qe1 where v:
    "(if Text q \<noteq> '''' then addMessagesVectorColumn d a (buildMessagesSelectQuery q) (Text q)
      else Ok (buildMessagesSelectQuery q, [])) = Ok (dbq1, qe1)"
    using assms by (auto simp: assembleQuery_def Let_def split: result.splits)
  obtain dbq2 where f:
    "(if \<not> len_is_zero (Metadata q) then applyMessagesMetadataFilter d dbq1 (Metadata q)
      else Ok dbq1) = Ok dbq2"
    using assms v by (auto simp: assembleQuery_def Let_def split: result.splits)
  have o1: "orders dbq1 = []" and w1: "wheres dbq1 = []"
    using v by (auto simp: buildMessagesSelectQuery_parts ColumnExpr_def
        dest!: addMessagesVectorColumn_Ok(1) split: if_splits)
  have c1: "Text q \<noteq> '''' \<Longrightarrow> columns dbq1 = columns (buildMessagesSelectQuery q) @
             [(''(embedding <#> ?) * -1 AS dist'', [ArgVector qe1])]"
    using v by (auto simp: ColumnExpr_def dest!: addMessagesVectorColumn_Ok(1))
  have e1: "Text q \<noteq> '''' \<Longrightarrow> \<exists>model vs. GetEmbeddingModel d a ''message'' = Inr model \<and>
              EmbedTexts d a model ''message'' [Text q] = Inr (qe1 # vs)"
    using v by (auto dest!: addMessagesVectorColumn_Ok(2))
  have o2: "orders dbq2 = []" and c2: "columns dbq2 = columns dbq1"
    using f o1 by (auto dest!: applyMessagesMetadataFilter_Ok split: if_splits)
  have w2: "\<exists>tree. wheres dbq2 = tree @ date_conditions (Metadata q)"
  proof (cases "len_is_zero (Metadata q)")
    case True
    with f w1 show ?thesis by (simp add: date_conditions_empty)
  next
    case False
    with f show ?thesis by (auto dest!: applyMessagesMetadataFilter_Ok)
  qed
  define dbq5 where "dbq5 = addMessagesSortQuery (Text q)
    (Where (Where dbq2 ''m.session_id = ?'' [ArgString sessionID]) ''m.deleted_at IS NULL'' [])"
  have r: "Ok (q1, dbq, qe, limit1) =
    (let l = (if limit = 0 then DefaultMemorySearchLimit else limit)
     in if Type q = SearchTypeMMR
        then Ok ((if MMRLambda q = Finite 0 then q\<lparr>MMRLambda := DefaultMMRLambda\<rparr> else q),
                 Limit dbq5 (l * DefaultMMRMultiplier d), qe1, l)
        else Ok (q, Limit dbq5 l, qe1, l))"
    using assms v f unfolding assembleQuery_def dbq5_def Let_def by simp
  have qe: "qe = qe1"
    using r by (auto simp: Let_def split: if_splits)
  have parts: "orders dbq = orders dbq5" "wheres dbq = wheres dbq5" "columns dbq = columns dbq5"
    using r by (auto simp: Let_def Limit_def split: if_splits)
  show "limit1 = (if limit = 0 then DefaultMemorySearchLimit else limit)"
    using r by (auto simp: Let_def split: if_splits)
  show "q1 = (if Type q = SearchTypeMMR \<and> MMRLambda q = Finite 0
               then q\<lparr>MMRLambda := DefaultMMRLambda\<rparr> else q)"
    using r by (auto simp: Let_def split: if_splits)
  show "limitRows dbq =
           int32 (if Type q = SearchTypeMMR then limit1 * DefaultMMRMultiplier d else limit1)"
    using r by (auto simp: Let_def Limit_def split: if_splits)
  show "orders dbq = (if Text q \<noteq> '''' then [''dist DESC''] else [''m.created_at DESC''])"
    using parts(1) o2 by (simp add: dbq5_def addMessagesSortQuery_def Order_def Where_def)
  show "\<exists>tree. wheres dbq =
           tree @ date_conditions (Metadata q) @
             [Cond '' AND '' ''m.session_id = ?'' [ArgString sessionID],
              Cond '' AND '' ''m.deleted_at IS NULL'' []]"
    using parts(2) w2 by (auto simp: dbq5_def addMessagesSortQuery_def Order_def Where_def)
  show "columns dbq = columns (buildMessagesSelectQuery q) @
             [(''(embedding <#> ?) * -1 AS dist'', [ArgVector qe])] \<and>
           (\<exists>model vs. GetEmbeddingModel d a ''message'' = Inr model \<and>
              EmbedTexts d a model ''message'' [Text q] = Inr (qe # vs))"
    if "Text q \<noteq> ''''"
    using that parts(3) c1 c2 e1 qe
    by (simp add: dbq5_def addMessagesSortQuery_def Order_def Where_def)
qed

text \<open>A query reaches the database only through a successful assembly.\<close>

lemma searchMessages_not_executed:
  assumes "executed (searchMessages d appState sessionID (Some q) limit) = None"
  shows "payload (searchMessages d appState sessionID (Some q) limit) = Some q"
    and "reranked (searchMessages d appState sessionID (Some q) limit) = None"
  using assms
  by (auto simp: searchMessages_def Let_def
      split: option.splits if_splits result.splits prod.splits)

lemma searchMessages_executed:
  assumes "executed (searchMessages d appState sessionID (Some q) limit) = Some dbq"
  shows "\<exists>a q1 qe limit1. appState = Some a \<and>
           assembleQuery d a sessionID q limit = Ok (q1, dbq, qe, limit1) \<and>
           payload (searchMessages d appState sessionID (Some q) limit) = Some q1 \<and>
           (reranked (searchMessages d appState sessionID (Some q) limit) = None \<or>
            reranked (searchMessages d appState sessionID (Some q) limit) =
              Some (MMRLambda q1, limit1))"
  using assms
  by (auto simp: searchMessages_def Let_def
      split: option.splits if_splits result.splits prod.splits)

text \<open>What a call returns once its query has been assembled.\<close>

lemma searchMessages_outcome:
  assumes "executed (searchMessages d appState sessionID (Some q) limit) = Some dbq"
  shows "\<exists>a q1 qe limit1. appState = Some a \<and>
           assembleQuery d a sessionID q limit = Ok (q1, dbq, qe, limit1) \<and>
           outcome (searchMessages d appState sessionID (Some q) limit) =
             (case Scan d dbq of
                (rs, Some err) \<Rightarrow>
                  Err (StorageError ''memory searchMessages failed'' (Some err))
              | (rs, None) \<Rightarrow>
                  if Type q1 = SearchTypeMMR
                  then (case rerankMMR d (filterValidMessageSearchResults rs (Metadata q1)) qe
                               (MMRLambda q1) limit1 of
                          Ok xs \<Rightarrow> Ok xs
                        | Err err \<Rightarrow> Err (StorageError ''error applying mmr'' (Some err))
                        | Panic p \<Rightarrow> Panic p)
                  else Ok (filterValidMessageSearchResults rs (Metadata q1))) \<and>
           reranked (searchMessages d appState sessionID (Some q) limit) =
             (case Scan d dbq of
                (rs, Some err) \<Rightarrow> None
              | (rs, None) \<Rightarrow>
                  if Type q1 = SearchTypeMMR then Some (MMRLambda q1, limit1) else None)"
proof -
  obtain a q1 qe limit1 where a: "appState = Some a"
    and b: "assembleQuery d a sessionID q limit = Ok (q1, dbq, qe, limit1)"
    using searchMessages_executed [OF assms] by blast
  have ne: "(Text q = '''' \<and> len_is_zero (Metadata q)) = False"
    using assms a by (auto simp: searchMessages_def)
  obtain rs e where s: "Scan d dbq = (rs, e)"
    by (cases "Scan d dbq")
  have o: "outcome (searchMessages d appState sessionID (Some q) limit) =
             (case Scan d dbq of
                (rs, Some err) \<Rightarrow>
                  Err (StorageError ''memory searchMessages failed'' (Some err))
              | (rs, None) \<Rightarrow>
                  if Type q1 = SearchTypeMMR
                  then (case rerankMMR d (filterValidMessageSearchResults rs (Metadata q1)) qe
                               (MMRLambda q1) limit1 of
                          Ok xs \<Rightarrow> Ok xs
                        | Err err \<Rightarrow> Err (StorageError ''error applying mmr'' (Some err))
                        | Panic p \<Rightarrow> Panic p)
                  else Ok (filterValidMessageSearchResults rs (Metadata q1)))"
    unfolding searchMessages_def NewStorageError_def
    by (cases e) (simp_all add: ne a b s executeMessagesSearchScan_def Let_def)
  have r: "reranked (searchMessages d appState sessionID (Some q) limit) =
             (case Scan d dbq of
                (rs, Some err) \<Rightarrow> None
              | (rs, None) \<Rightarrow>
                  if Type q1 = SearchTypeMMR then Some (MMRLambda q1, limit1) else None)"
    unfolding searchMessages_def
    by (cases e) (simp_all add: ne a b s executeMessagesSearchScan_def Let_def)
  show ?thesis
    by (rule exI [where x = a], rule exI [where x = q1], rule exI [where x = qe],
        rule exI [where x = limit1], intro conjI) (rule a, rule b, rule o, rule r)
qed

lemma searchMessages_limitRows:
  assumes "executed (searchMessages d appState sessionID (Some q) limit) = Some dbq"
  shows "limitRows dbq =
           int32 (if Type q = SearchTypeMMR
                  then (if limit = 0 then 10 else limit) * DefaultMMRMultiplier d
                  else (if limit = 0 then 10 else limit))"
proof -
  obtain a q1 qe limit1 where "assembleQuery d a sessionID q limit = Ok (q1, dbq, qe, limit1)"
    using searchMessages_executed [OF assms] by blast
  from assembleQuery_Ok(1,3) [OF this] show ?thesis
    by (simp add: DefaultMemorySearchLimit_def)
qed

lemma searchMessages_executes:
  assumes "assembleQuery d a sessionID q limit = Ok (q1, dbq, qe, limit1)"
    and "Text q \<noteq> '''' \<or> \<not> len_is_zero (Metadata q)"
  shows "executed (searchMessages d (Some a) sessionID (Some q) limit) = Some dbq"
  using assms
  by (auto simp: searchMessages_def Let_def split: prod.splits option.splits)

lemma filterValidLoop_filter:
  "filterValidLoop results metadata acc =
     acc @ filter (\<lambda>r. \<not> IsNaN (Dist r) \<or> \<not> len_is_zero metadata) results"
  by (induction results arbitrary: acc) simp_all

text \<open>The sample calls reach the database.\<close>

lemmas sample_defs =
  searchMessages_def assembleQuery_def addMessagesVectorColumn_def
  applyMessagesMetadataFilter_def executeMessagesSearchScan_def sample_deps_def
  len_is_zero_def Let_def SearchTypeMMR_def SearchTypeSimilarity_def

lemma sample_run_mmr:
  "executed (searchMessages sample_deps (Some ()) ''session-1'' (Some mmr_query) 0) \<noteq> None"
  by (simp add: sample_defs mmr_query_def)

lemma sample_run_mmr5:
  "executed (searchMessages sample_deps (Some ()) ''session-1'' (Some mmr_query) 5) \<noteq> None"
  by (simp add: sample_defs mmr_query_def)

lemma sample_run_text:
  "executed (searchMessages sample_deps (Some ()) ''session-1'' (Some text_query) 3) \<noteq> None"
  by (simp add: sample_defs text_query_def)

lemma sample_run_dated:
  "executed (searchMessages sample_deps (Some ()) ''session-1'' (Some dated_query) 3) \<noteq> None"
  by (simp add: sample_defs dated_query_def)

subsection \<open>Rejected calls\<close>

text \<open>
  Claim C1. A payload whose text is empty and whose metadata is empty is rejected: the call
  returns an error and nil results, sends no query to the database and leaves the payload
  as it was. The error is the storage error \<^verbatim>\<open>"empty query"\<close> that the code reserves for
  this case; when in addition the application state is nil, it is the storage error for nil
  arguments, which the check before it returns. These two are the errors that the
  specification calls \<^verbatim>\<open>InvalidQueryError\<close> (nil or empty query).
\<close>

theorem searchMessages_empty_query:
  assumes "Text q = ''''" and "len_is_zero (Metadata q)"
  shows "searchMessages d appState sessionID (Some q) limit =
           \<lparr>payload = Some q, executed = None, reranked = None,
            outcome = Err (if appState = None
                           then StorageError ''nil query or appState received'' None
                           else StorageError ''empty query'' (Some (ErrorsNew ''empty query'')))\<rparr>"
  using assms
  by (auto simp: searchMessages_def NewStorageError_def split: option.splits)

theorem searchMessages_empty_query_witness:
  "Text empty_query = '''' \<and> len_is_zero (Metadata empty_query) \<and>
   searchMessages sample_deps (Some ()) ''session-1'' (Some empty_query) 5 =
     \<lparr>payload = Some empty_query, executed = None, reranked = None,
      outcome = Err (StorageError ''empty query'' (Some (ErrorsNew ''empty query'')))\<rparr>"
proof -
  have t: "Text empty_query = ''''" by (simp add: empty_query_def)
  have m: "len_is_zero (Metadata empty_query)" by (simp add: empty_query_def len_is_zero_def)
  show ?thesis
    using t m searchMessages_empty_query [OF t m, of sample_deps "Some ()" "''session-1''" 5]
    by simp
qed

text \<open>
  Claim C10. With a nil payload or a nil application state the call returns the storage
  error \<^verbatim>\<open>"nil query or appState received"\<close> and nil results, for every session and
  limit. It does not panic, sends no query to the database and touches no payload.
\<close>

theorem searchMessages_nil_input:
  assumes "query = None \<or> appState = None"
  shows "searchMessages d appState sessionID query limit =
           \<lparr>payload = query, executed = None, reranked = None,
            outcome = Err (StorageError ''nil query or appState received'' None)\<rparr>"
  using assms
  by (auto simp: searchMessages_def NewStorageError_def split: option.splits)

theorem searchMessages_nil_input_witness:
  "searchMessages sample_deps None ''session-1'' (None :: MemorySearchPayload option) 5 =
     \<lparr>payload = None, executed = None, reranked = None,
      outcome = Err (StorageError ''nil query or appState received'' None)\<rparr> \<and>
   searchMessages sample_deps None ''session-1'' (Some text_query) 5 =
     \<lparr>payload = Some text_query, executed = None, reranked = None,
      outcome = Err (StorageError ''nil query or appState received'' None)\<rparr>"
  using searchMessages_nil_input [of None None sample_deps "''session-1''" 5]
    searchMessages_nil_input [of "Some text_query" None sample_deps "''session-1''" 5]
  by simp

subsection \<open>The result validator\<close>

text \<open>
  Claim C2. \<^verbatim>\<open>filterValidMessageSearchResults\<close> keeps exactly the rows whose distance is
  not NaN or whose query has a non-empty metadata map, in their order and unchanged. So a
  query with metadata keeps every row, and a query without metadata loses exactly the rows
  with a NaN distance.
\<close>

theorem filterValidMessageSearchResults_keeps:
  "filterValidMessageSearchResults results metadata =
     filter (\<lambda>r. \<not> IsNaN (Dist r) \<or> \<not> len_is_zero metadata) results \<and>
   filterValidMessageSearchResults results metadata =
     (if len_is_zero metadata then filter (\<lambda>r. \<not> IsNaN (Dist r)) results else results)"
  by (simp add: filterValidMessageSearchResults_def filterValidLoop_filter)

theorem filterValidMessageSearchResults_keeps_witness:
  "filterValidMessageSearchResults sample_rows Mapping.empty =
     [sample_row (Finite 1) [Finite 1, Finite 0], sample_row (Finite 0) [Finite 0, Finite 1]] \<and>
   filterValidMessageSearchResults sample_rows (Metadata dated_query) = sample_rows"
  using filterValidMessageSearchResults_keeps [of sample_rows Mapping.empty]
    filterValidMessageSearchResults_keeps [of sample_rows "Metadata dated_query"]
  by (simp add: sample_rows_def sample_row_def IsNaN_def len_is_zero_def dated_query_def)

subsection \<open>The query sent to the database\<close>

text \<open>
  Claim C3, as amended. Whenever a call sends a query to the database, the value handed to
  the builder's \<^verbatim>\<open>Limit\<close> is the effective limit (10 for a requested limit of 0, the
  requested limit otherwise), multiplied by \<^verbatim>\<open>DefaultMMRMultiplier\<close> when the search type
  is MMR; the builder stores it as an \<^verbatim>\<open>int32\<close>. The query requests exactly the effective
  limit times the multiplier (MMR) or exactly the effective limit (otherwise) whenever that
  number lies between 1 and \<open>2^31 - 1\<close>.
\<close>

theorem searchMessages_limit:
  assumes "executed (searchMessages d appState sessionID (Some q) limit) = Some dbq"
  shows "limitRows dbq =
           int32 (if Type q = SearchTypeMMR
                  then (if limit = 0 then 10 else limit) * DefaultMMRMultiplier d
                  else (if limit = 0 then 10 else limit)) \<and>
         (Type q = SearchTypeMMR \<and>
          0 < sint (if limit = 0 then 10 else limit) * sint (DefaultMMRMultiplier d) \<and>
          sint (if limit = 0 then 10 else limit) * sint (DefaultMMRMultiplier d) < 2 ^ 31 \<longrightarrow>
          limitClause dbq =
            Some (sint (if limit = 0 then 10 else limit) * sint (DefaultMMRMultiplier d))) \<and>
         (Type q \<noteq> SearchTypeMMR \<and>
          0 < sint (if limit = 0 then 10 else limit) \<and>
          sint (if limit = 0 then 10 else limit) < 2 ^ 31 \<longrightarrow>
          limitClause dbq = Some (sint (if limit = 0 then 10 else limit)))"
proof (intro conjI impI)
  show l: "limitRows dbq =
           int32 (if Type q = SearchTypeMMR
                  then (if limit = 0 then 10 else limit) * DefaultMMRMultiplier d
                  else (if limit = 0 then 10 else limit))"
    by (rule searchMessages_limitRows [OF assms])
  {
    assume a: "Type q = SearchTypeMMR \<and>
      0 < sint (if limit = 0 then 10 else limit) * sint (DefaultMMRMultiplier d) \<and>
      sint (if limit = 0 then 10 else limit) * sint (DefaultMMRMultiplier d) < 2 ^ 31"
    then have "sint ((if limit = 0 then 10 else limit) * DefaultMMRMultiplier d) =
        sint (if limit = 0 then 10 else limit) * sint (DefaultMMRMultiplier d)"
      by (intro sint_mult_no_overflow) auto
    with a l show "limitClause dbq =
        Some (sint (if limit = 0 then 10 else limit) * sint (DefaultMMRMultiplier d))"
      by (simp add: limitClause_def int32_in_range)
  }
  {
    assume "Type q \<noteq> SearchTypeMMR \<and>
      0 < sint (if limit = 0 then 10 else limit) \<and>
      sint (if limit = 0 then 10 else limit) < 2 ^ 31"
    with l show "limitClause dbq = Some (sint (if limit = 0 then 10 else limit))"
      by (simp add: limitClause_def int32_in_range)
  }
qed

theorem searchMessages_limit_witness:
  "(\<exists>dbq. executed (searchMessages sample_deps (Some ()) ''session-1'' (Some mmr_query) 0) =
            Some dbq \<and>
      limitRows dbq = 20 \<and> limitClause dbq = Some 20) \<and>
   (\<exists>dbq. executed (searchMessages sample_deps (Some ()) ''session-1'' (Some text_query) 3) =
            Some dbq \<and>
      limitRows dbq = 3 \<and> limitClause dbq = Some 3)"
proof -
  obtain dbq where e:
    "executed (searchMessages sample_deps (Some ()) ''session-1'' (Some mmr_query) 0) = Some dbq"
    using sample_run_mmr by blast
  have "limitRows dbq = 20 \<and> limitClause dbq = Some 20"
    using searchMessages_limit [OF e]
    by (simp add: mmr_query_def sample_deps_def int32_def)
  with e have 1: "\<exists>dbq.
      executed (searchMessages sample_deps (Some ()) ''session-1'' (Some mmr_query) 0) =
        Some dbq \<and>
      limitRows dbq = 20 \<and> limitClause dbq = Some 20"
    by blast
  obtain dbq' where e':
    "executed (searchMessages sample_deps (Some ()) ''session-1'' (Some text_query) 3) = Some dbq'"
    using sample_run_text by blast
  have "limitRows dbq' = 3 \<and> limitClause dbq' = Some 3"
    using searchMessages_limit [OF e']
    by (simp add: text_query_def SearchTypeMMR_def SearchTypeSimilarity_def int32_def)
  with e' have 2: "\<exists>dbq.
      executed (searchMessages sample_deps (Some ()) ''session-1'' (Some text_query) 3) =
        Some dbq \<and>
      limitRows dbq = 3 \<and> limitClause dbq = Some 3"
    by blast
  from 1 2 show ?thesis by blast
qed

text \<open>
  The claim as stated fails outside that range. For a similarity search with the requested
  limit \<open>2^32 + 5\<close> the query requests 5 rows; with the requested limit \<open>2^31\<close>, or
  \<open>-1\<close>, it has no \<^verbatim>\<open>LIMIT\<close> clause at all.
\<close>

theorem searchMessages_limit_counterexample:
  "map_option limitClause
     (executed (searchMessages sample_deps (Some ()) ''session-1'' (Some text_query)
        4294967301)) = Some (Some 5) \<and>
   map_option limitClause
     (executed (searchMessages sample_deps (Some ()) ''session-1'' (Some text_query)
        2147483648)) = Some None \<and>
   map_option limitClause
     (executed (searchMessages sample_deps (Some ()) ''session-1'' (Some text_query)
        (- 1))) = Some None"
proof -
  have t: "Type text_query \<noteq> SearchTypeMMR"
    by (simp add: text_query_def SearchTypeMMR_def SearchTypeSimilarity_def)
  have run: "executed (searchMessages sample_deps (Some ()) ''session-1'' (Some text_query) n)
      \<noteq> None" for n
    by (simp add: sample_defs text_query_def)
  have c: "map_option limitClause
      (executed (searchMessages sample_deps (Some ()) ''session-1'' (Some text_query) n)) =
      Some (if 0 < sint (int32 (if n = 0 then 10 else n))
            then Some (sint (int32 (if n = 0 then 10 else n))) else None)" for n
  proof -
    obtain dbq where e:
      "executed (searchMessages sample_deps (Some ()) ''session-1'' (Some text_query) n) =
         Some dbq"
      using run [of n] by blast
    from searchMessages_limitRows [OF e] t e show ?thesis
      by (simp add: limitClause_def)
  qed
  have 1: "sint (int32 4294967301) = 5"
    by (simp add: sint_int32 signed_take_bit_eq_take_bit_minus take_bit_eq_mod)
  have 2: "sint (int32 2147483648) = - 2147483648"
    by (simp add: sint_int32 signed_take_bit_eq_take_bit_minus take_bit_eq_mod bit_iff_odd)
  have 3: "sint (int32 (- 1)) = - 1"
    by (simp add: sint_int32)
  show ?thesis
    by (simp add: c 1 2 3)
qed

text \<open>
  Claim C5. Whenever a call sends a query to the database, the query has exactly one sort
  term: \<^verbatim>\<open>dist DESC\<close> when the text of the payload is not empty, and
  \<^verbatim>\<open>m.created_at DESC\<close> when it is empty.
\<close>

theorem searchMessages_sort:
  assumes "executed (searchMessages d appState sessionID (Some q) limit) = Some dbq"
  shows "orders dbq = (if Text q \<noteq> '''' then [''dist DESC''] else [''m.created_at DESC''])"
proof -
  obtain a q1 qe limit1 where "assembleQuery d a sessionID q limit = Ok (q1, dbq, qe, limit1)"
    using searchMessages_executed [OF assms] by blast
  from assembleQuery_Ok(4) [OF this] show ?thesis .
qed

theorem searchMessages_sort_witness:
  "(\<exists>dbq. executed (searchMessages sample_deps (Some ()) ''session-1'' (Some text_query) 3) =
            Some dbq \<and>
      orders dbq = [''dist DESC'']) \<and>
   (\<exists>dbq. executed (searchMessages sample_deps (Some ()) ''session-1'' (Some dated_query) 3) =
            Some dbq \<and>
      orders dbq = [''m.created_at DESC''])"
proof -
  obtain dbq where e:
    "executed (searchMessages sample_deps (Some ()) ''session-1'' (Some text_query) 3) = Some dbq"
    using sample_run_text by blast
  have "orders dbq = [''dist DESC'']"
    using searchMessages_sort [OF e] by (simp add: text_query_def)
  with e have 1: "\<exists>dbq.
      executed (searchMessages sample_deps (Some ()) ''session-1'' (Some text_query) 3) =
        Some dbq \<and>
      orders dbq = [''dist DESC'']"
    by blast
  obtain dbq' where e':
    "executed (searchMessages sample_deps (Some ()) ''session-1'' (Some dated_query) 3) =
       Some dbq'"
    using sample_run_dated by blast
  have "orders dbq' = [''m.created_at DESC'']"
    using searchMessages_sort [OF e'] by (simp add: dated_query_def)
  with e' have 2: "\<exists>dbq.
      executed (searchMessages sample_deps (Some ()) ''session-1'' (Some dated_query) 3) =
        Some dbq \<and>
      orders dbq = [''m.created_at DESC'']"
    by blast
  from 1 2 show ?thesis by blast
qed

text \<open>
  Claim C7. Whenever a call sends a query to the database, whatever the text, the metadata
  and the search type of the payload, the conditions of the query end with the condition
  that the row belongs to the requested session and the condition that the row is not
  deleted, both joined with \<^verbatim>\<open>AND\<close>.
\<close>

theorem searchMessages_scope:
  assumes "executed (searchMessages d appState sessionID (Some q) limit) = Some dbq"
  shows "\<exists>base. wheres dbq =
           base @ [Cond '' AND '' ''m.session_id = ?'' [ArgString sessionID],
                   Cond '' AND '' ''m.deleted_at IS NULL'' []]"
proof -
  obtain a q1 qe limit1 where "assembleQuery d a sessionID q limit = Ok (q1, dbq, qe, limit1)"
    using searchMessages_executed [OF assms] by blast
  from assembleQuery_Ok(5) [OF this] obtain tree where
    w: "wheres dbq = tree @ date_conditions (Metadata q) @
       [Cond '' AND '' ''m.session_id = ?'' [ArgString sessionID],
        Cond '' AND '' ''m.deleted_at IS NULL'' []]"
    by (elim exE)
  show ?thesis
    by (rule exI [where x = "tree @ date_conditions (Metadata q)"]) (simp only: w append_assoc)
qed

theorem searchMessages_scope_witness:
  "\<exists>dbq base.
     executed (searchMessages sample_deps (Some ()) ''session-1'' (Some text_query) 3) =
       Some dbq \<and>
     wheres dbq = base @ [Cond '' AND '' ''m.session_id = ?'' [ArgString ''session-1''],
                          Cond '' AND '' ''m.deleted_at IS NULL'' []]"
proof -
  obtain dbq where e:
    "executed (searchMessages sample_deps (Some ()) ''session-1'' (Some text_query) 3) = Some dbq"
    using sample_run_text by blast
  from searchMessages_scope [OF e] obtain base where
    b: "wheres dbq = base @ [Cond '' AND '' ''m.session_id = ?'' [ArgString ''session-1''],
                             Cond '' AND '' ''m.deleted_at IS NULL'' []]"
    by (elim exE)
  show ?thesis
    by (rule exI [where x = dbq], rule exI [where x = base], rule conjI) (rule e, rule b)
qed

subsection \<open>The date bounds\<close>

text \<open>
  Claim C6. \<^verbatim>\<open>addMessageDateFilters\<close> appends to the conditions it receives one condition
  per bound that is present in the metadata: \<^verbatim>\<open>m.created_at >= ?\<close> bound to the value of
  \<^verbatim>\<open>start_date\<close> and \<^verbatim>\<open>m.created_at <= ?\<close> bound to the value of \<^verbatim>\<open>end_date\<close>, each
  joined with \<^verbatim>\<open>AND\<close>. In \<^verbatim>\<open>applyMessagesMetadataFilter\<close> they follow the conditions of
  the filter tree, which is decoded from the key \<^verbatim>\<open>where\<close> alone and compiled by
  \<^verbatim>\<open>parseJSONQuery\<close>; without that key they follow the conditions the query already had.
  In the query that a call sends to the database they stand between the conditions of the
  filter tree and the conditions on session and deletion.
\<close>

theorem date_filters:
  "addMessageDateFilters qb m = qb @ date_conditions m \<and>
   (applyMessagesMetadataFilter d dbq m = Ok dbq1 \<longrightarrow>
      (\<exists>tree. dbq1 = dbq\<lparr>wheres := tree @ date_conditions m\<rparr> \<and>
         (case Mapping.lookup m ''where'' of
            None \<Rightarrow> tree = wheres dbq
          | Some w \<Rightarrow>
              \<exists>j jq. jsonMarshal d w = Inr j \<and> jsonUnmarshal d j = Inr jq \<and>
                tree = parseJSONQuery d (wheres dbq) jq False ''m''))) \<and>
   (executed (searchMessages d appState sessionID (Some q) limit) = Some dbq2 \<longrightarrow>
      (\<exists>tree. wheres dbq2 =
         tree @ date_conditions (Metadata q) @
           [Cond '' AND '' ''m.session_id = ?'' [ArgString sessionID],
            Cond '' AND '' ''m.deleted_at IS NULL'' []]))"
proof (intro conjI impI)
  show "addMessageDateFilters qb m = qb @ date_conditions m"
    by (rule addMessageDateFilters_eq)
next
  assume "applyMessagesMetadataFilter d dbq m = Ok dbq1"
  then show "\<exists>tree. dbq1 = dbq\<lparr>wheres := tree @ date_conditions m\<rparr> \<and>
         (case Mapping.lookup m ''where'' of
            None \<Rightarrow> tree = wheres dbq
          | Some w \<Rightarrow>
              \<exists>j jq. jsonMarshal d w = Inr j \<and> jsonUnmarshal d j = Inr jq \<and>
                tree = parseJSONQuery d (wheres dbq) jq False ''m'')"
    by (rule applyMessagesMetadataFilter_Ok)
next
  assume e: "executed (searchMessages d appState sessionID (Some q) limit) = Some dbq2"
  obtain a q1 qe limit1 where "assembleQuery d a sessionID q limit = Ok (q1, dbq2, qe, limit1)"
    using searchMessages_executed [OF e] by blast
  from assembleQuery_Ok(5) [OF this]
  show "\<exists>tree. wheres dbq2 =
         tree @ date_conditions (Metadata q) @
           [Cond '' AND '' ''m.session_id = ?'' [ArgString sessionID],
            Cond '' AND '' ''m.deleted_at IS NULL'' []]" .
qed

theorem date_filters_witness:
  "addMessageDateFilters [] (Metadata dated_query) =
     [Cond '' AND '' ''m.created_at >= ?'' [ArgValue (JString ''2023-01-01'')],
      Cond '' AND '' ''m.created_at <= ?'' [ArgValue (JString ''2023-12-31'')]] \<and>
   applyMessagesMetadataFilter sample_deps NewSelect (Metadata dated_query) =
     Ok (NewSelect\<lparr>wheres :=
       [Cond '' AND '' ''m.created_at >= ?'' [ArgValue (JString ''2023-01-01'')],
        Cond '' AND '' ''m.created_at <= ?'' [ArgValue (JString ''2023-12-31'')]]\<rparr>) \<and>
   (\<exists>dbq tree.
      executed (searchMessages sample_deps (Some ()) ''session-1'' (Some dated_query) 3) =
        Some dbq \<and>
      wheres dbq =
        tree @
        [Cond '' AND '' ''m.created_at >= ?'' [ArgValue (JString ''2023-01-01'')],
         Cond '' AND '' ''m.created_at <= ?'' [ArgValue (JString ''2023-12-31'')],
         Cond '' AND '' ''m.session_id = ?'' [ArgString ''session-1''],
         Cond '' AND '' ''m.deleted_at IS NULL'' []])"
proof -
  have dc: "date_conditions (Metadata dated_query) =
     [Cond '' AND '' ''m.created_at >= ?'' [ArgValue (JString ''2023-01-01'')],
      Cond '' AND '' ''m.created_at <= ?'' [ArgValue (JString ''2023-12-31'')]]"
    by (simp add: date_conditions_def dated_query_def)
  have 1: "addMessageDateFilters [] (Metadata dated_query) =
     [Cond '' AND '' ''m.created_at >= ?'' [ArgValue (JString ''2023-01-01'')],
      Cond '' AND '' ''m.created_at <= ?'' [ArgValue (JString ''2023-12-31'')]]"
    using date_filters [of "[]" "Metadata dated_query", THEN conjunct1] dc by simp
  have 2: "applyMessagesMetadataFilter sample_deps NewSelect (Metadata dated_query) =
     Ok (NewSelect\<lparr>wheres :=
       [Cond '' AND '' ''m.created_at >= ?'' [ArgValue (JString ''2023-01-01'')],
        Cond '' AND '' ''m.created_at <= ?'' [ArgValue (JString ''2023-12-31'')]]\<rparr>)"
    by (simp add: applyMessagesMetadataFilter_def dated_query_def Let_def QueryBuilderOf_def
        Unwrap_def addMessageDateFilters_def qbWhere_def NewSelect_def)
  obtain dbq where e:
    "executed (searchMessages sample_deps (Some ()) ''session-1'' (Some dated_query) 3) =
       Some dbq"
    using sample_run_dated by blast
  from date_filters [THEN conjunct2, THEN conjunct2, rule_format, OF e]
  obtain tree where "wheres dbq =
      tree @ date_conditions (Metadata dated_query) @
        [Cond '' AND '' ''m.session_id = ?'' [ArgString ''session-1''],
         Cond '' AND '' ''m.deleted_at IS NULL'' []]"
    by (elim exE)
  then have w: "wheres dbq =
        tree @
        [Cond '' AND '' ''m.created_at >= ?'' [ArgValue (JString ''2023-01-01'')],
         Cond '' AND '' ''m.created_at <= ?'' [ArgValue (JString ''2023-12-31'')],
         Cond '' AND '' ''m.session_id = ?'' [ArgString ''session-1''],
         Cond '' AND '' ''m.deleted_at IS NULL'' []]"
    by (simp only: dc append_Cons append_Nil)
  have 3: "\<exists>dbq tree.
      executed (searchMessages sample_deps (Some ()) ''session-1'' (Some dated_query) 3) =
        Some dbq \<and>
      wheres dbq =
        tree @
        [Cond '' AND '' ''m.created_at >= ?'' [ArgValue (JString ''2023-01-01'')],
         Cond '' AND '' ''m.created_at <= ?'' [ArgValue (JString ''2023-12-31'')],
         Cond '' AND '' ''m.session_id = ?'' [ArgString ''session-1''],
         Cond '' AND '' ''m.deleted_at IS NULL'' []]"
    by (rule exI [where x = dbq], rule exI [where x = tree], rule conjI) (rule e, rule w)
  from 1 2 3 show ?thesis by (intro conjI)
qed

subsection \<open>The distance projection\<close>

text \<open>
  Claim C4, as amended. For a payload with a non-empty text, the query sent to the database
  carries the projection \<^verbatim>\<open>(embedding <#> ?) * -1 AS dist\<close> as its last column, bound to
  the first vector that the embedding provider returns for the text. Its value for a row is
  the inner product of the stored embedding and the query vector, as the database computes
  it, and not the negation of that inner product: \<^verbatim>\<open><#>\<close> yields the negated inner product
  and the factor \<^verbatim>\<open>-1\<close> undoes the negation. So larger values mean more similar.
\<close>

theorem dist_is_inner_product:
  assumes "Text q \<noteq> ''''"
    and "executed (searchMessages d appState sessionID (Some q) limit) = Some dbq"
  shows "\<exists>a model qe vs.
           appState = Some a \<and>
           GetEmbeddingModel d a ''message'' = Inr model \<and>
           EmbedTexts d a model ''message'' [Text q] = Inr (qe # vs) \<and>
           last (columns dbq) = (''(embedding <#> ?) * -1 AS dist'', [ArgVector qe]) \<and>
           projection_value ip (last (columns dbq)) stored = Some (ip stored qe)"
proof -
  obtain a q1 qe limit1 where a: "appState = Some a"
    and b: "assembleQuery d a sessionID q limit = Ok (q1, dbq, qe, limit1)"
    using searchMessages_executed [OF assms(2)] by blast
  from assembleQuery_Ok(6) [OF b assms(1)] obtain model vs where
    c: "columns dbq = columns (buildMessagesSelectQuery q) @
          [(''(embedding <#> ?) * -1 AS dist'', [ArgVector qe])]"
    and g: "GetEmbeddingModel d a ''message'' = Inr model"
    and e: "EmbedTexts d a model ''message'' [Text q] = Inr (qe # vs)"
    by (elim conjE exE)
  have l: "last (columns dbq) = (''(embedding <#> ?) * -1 AS dist'', [ArgVector qe])"
    by (simp only: c last_snoc)
  have p: "projection_value ip (last (columns dbq)) stored = Some (ip stored qe)"
    by (simp only: l projection_value_dist)
  show ?thesis
    by (rule exI [where x = a], rule exI [where x = model], rule exI [where x = qe],
        rule exI [where x = vs], intro conjI) (rule a, rule g, rule e, rule l, rule p)
qed

theorem dist_is_inner_product_witness:
  "Text text_query \<noteq> '''' \<and>
   (\<exists>dbq. executed (searchMessages sample_deps (Some ()) ''session-1'' (Some text_query) 3) =
            Some dbq \<and>
      projection_value inner_product (last (columns dbq)) [Finite 0, Finite 1] =
        Some (Finite 0) \<and>
      projection_value inner_product (last (columns dbq)) [Finite 1, Finite 0] =
        Some (Finite 1))"
proof -
  have t: "Text text_query \<noteq> ''''" by (simp add: text_query_def)
  obtain dbq where e:
    "executed (searchMessages sample_deps (Some ()) ''session-1'' (Some text_query) 3) = Some dbq"
    using sample_run_text by blast
  have emb: "EmbedTexts sample_deps a model ''message'' [Text text_query] =
      Inr ([Finite 1, Finite 0] # [])" for a model
    by (simp add: sample_deps_def)
  have v: "projection_value inner_product (last (columns dbq)) stored =
      Some (inner_product stored [Finite 1, Finite 0])" for stored
    using dist_is_inner_product [OF t e, of inner_product stored] emb by auto
  have "projection_value inner_product (last (columns dbq)) [Finite 0, Finite 1] =
      Some (Finite 0)"
    by (simp add: v inner_product_def)
  moreover have "projection_value inner_product (last (columns dbq)) [Finite 1, Finite 0] =
      Some (Finite 1)"
    by (simp add: v inner_product_def)
  ultimately show ?thesis using t e by blast
qed

text \<open>
  The claim as stated fails: for the stored embedding \<open>(1, 0)\<close> and the query vector
  \<open>(1, 0)\<close> the projection that \<^verbatim>\<open>addMessagesVectorColumn\<close> adds has the value 1, and the
  negated inner product is -1.
\<close>

theorem dist_is_inner_product_counterexample:
  "addMessagesVectorColumn sample_deps () NewSelect ''project deadline'' =
     Ok (ColumnExpr NewSelect ''(embedding <#> ?) * -1 AS dist''
           [ArgVector [Finite 1, Finite 0]], [Finite 1, Finite 0]) \<and>
   projection_value inner_product
     (''(embedding <#> ?) * -1 AS dist'', [ArgVector [Finite 1, Finite 0]])
     [Finite 1, Finite 0] = Some (Finite 1) \<and>
   projection_value inner_product
     (''(embedding <#> ?) * -1 AS dist'', [ArgVector [Finite 1, Finite 0]])
     [Finite 1, Finite 0] \<noteq>
     Some (float_neg (inner_product [Finite 1, Finite 0] [Finite 1, Finite 0]))"
  by (simp add: addMessagesVectorColumn_def sample_deps_def projection_value_def
      times_minus_one_def negative_inner_product_def inner_product_def)

subsection \<open>The MMR parameter and the payload\<close>

text \<open>
  Claim C8. When the search type is MMR and \<^verbatim>\<open>MMRLambda\<close> of the payload is 0, a call
  whose query the database answers without error reranks with \<^verbatim>\<open>DefaultMMRLambda\<close>, not
  with 0: what the call returns is what \<^verbatim>\<open>MaximalMarginalRelevance\<close> selects from the
  embeddings of the valid rows for the query embedding, \<^verbatim>\<open>DefaultMMRLambda\<close> and the
  effective limit. With the value that the specification gives for the constant, it lies
  strictly between 0 and 1.
\<close>

theorem searchMessages_default_lambda:
  assumes "Type q = SearchTypeMMR" and "MMRLambda q = Finite 0"
    and "executed (searchMessages d appState sessionID (Some q) limit) = Some dbq"
    and "Scan d dbq = (results, None)"
  shows "\<exists>a q1 qe limit1.
           appState = Some a \<and>
           assembleQuery d a sessionID q limit = Ok (q1, dbq, qe, limit1) \<and>
           outcome (searchMessages d appState sessionID (Some q) limit) =
             (case MaximalMarginalRelevance d qe
                     (map Embedding (filterValidMessageSearchResults results (Metadata q)))
                     DefaultMMRLambda (if limit = 0 then 10 else limit) of
                Inl err \<Rightarrow>
                  Err (StorageError ''error applying mmr''
                         (Some (StorageError ''error applying mmr'' (Some err))))
              | Inr rerankedIdxs \<Rightarrow>
                  if list_all (index_ok (filterValidMessageSearchResults results (Metadata q)))
                       rerankedIdxs
                  then Ok (map (\<lambda>idx. filterValidMessageSearchResults results (Metadata q) !
                                         nat (sint idx)) rerankedIdxs)
                  else Panic ''index out of range'') \<and>
           reranked (searchMessages d appState sessionID (Some q) limit) =
             Some (DefaultMMRLambda, if limit = 0 then 10 else limit) \<and>
           DefaultMMRLambda \<noteq> Finite 0 \<and>
           (\<exists>x. DefaultMMRLambda = Finite x \<and> 0 < x \<and> x < 1)"
proof -
  obtain a q1 qe limit1 where a: "appState = Some a"
    and b: "assembleQuery d a sessionID q limit = Ok (q1, dbq, qe, limit1)"
    and o: "outcome (searchMessages d appState sessionID (Some q) limit) =
             (case Scan d dbq of
                (rs, Some err) \<Rightarrow>
                  Err (StorageError ''memory searchMessages failed'' (Some err))
              | (rs, None) \<Rightarrow>
                  if Type q1 = SearchTypeMMR
                  then (case rerankMMR d (filterValidMessageSearchResults rs (Metadata q1)) qe
                               (MMRLambda q1) limit1 of
                          Ok xs \<Rightarrow> Ok xs
                        | Err err \<Rightarrow> Err (StorageError ''error applying mmr'' (Some err))
                        | Panic p \<Rightarrow> Panic p)
                  else Ok (filterValidMessageSearchResults rs (Metadata q1)))"
    and r: "reranked (searchMessages d appState sessionID (Some q) limit) =
             (case Scan d dbq of
                (rs, Some err) \<Rightarrow> None
              | (rs, None) \<Rightarrow>
                  if Type q1 = SearchTypeMMR then Some (MMRLambda q1, limit1) else None)"
    using searchMessages_outcome [OF assms(3)] by blast
  have q1: "q1 = q\<lparr>MMRLambda := DefaultMMRLambda\<rparr>"
    using assembleQuery_Ok(2) [OF b] assms(1,2) by simp
  have l1: "limit1 = (if limit = 0 then 10 else limit)"
    using assembleQuery_Ok(1) [OF b] by (simp add: DefaultMemorySearchLimit_def)
  have o': "outcome (searchMessages d appState sessionID (Some q) limit) =
             (case MaximalMarginalRelevance d qe
                     (map Embedding (filterValidMessageSearchResults results (Metadata q)))
                     DefaultMMRLambda (if limit = 0 then 10 else limit) of
                Inl err \<Rightarrow>
                  Err (StorageError ''error applying mmr''
                         (Some (StorageError ''error applying mmr'' (Some err))))
              | Inr rerankedIdxs \<Rightarrow>
                  if list_all (index_ok (filterValidMessageSearchResults results (Metadata q)))
                       rerankedIdxs
                  then Ok (map (\<lambda>idx. filterValidMessageSearchResults results (Metadata q) !
                                         nat (sint idx)) rerankedIdxs)
                  else Panic ''index out of range'')"
    using o assms(1,4)
    by (simp add: q1 l1 rerankMMR_def NewStorageError_def Let_def split: sum.splits)
  have r': "reranked (searchMessages d appState sessionID (Some q) limit) =
             Some (DefaultMMRLambda, if limit = 0 then 10 else limit)"
    using r assms(1,4) by (simp add: q1 l1)
  have n: "DefaultMMRLambda \<noteq> Finite 0"
    by (simp add: DefaultMMRLambda_def)
  have x: "\<exists>x. DefaultMMRLambda = Finite x \<and> 0 < x \<and> x < 1"
    unfolding DefaultMMRLambda_def by (rule exI [of _ "1 / 2"]) simp
  show ?thesis
    by (rule exI [where x = a], rule exI [where x = q1], rule exI [where x = qe],
        rule exI [where x = limit1], intro conjI) (rule a, rule b, rule o', rule r', rule n, rule x)
qed

theorem searchMessages_default_lambda_witness:
  "Type mmr_query = SearchTypeMMR \<and> MMRLambda mmr_query = Finite 0 \<and>
   (\<exists>dbq. executed (searchMessages sample_deps (Some ()) ''session-1'' (Some mmr_query) 5) =
            Some dbq \<and>
      Scan sample_deps dbq = (sample_rows, None)) \<and>
   outcome (searchMessages sample_deps (Some ()) ''session-1'' (Some mmr_query) 5) =
     Ok [sample_row (Finite 0) [Finite 0, Finite 1], sample_row (Finite 1) [Finite 1, Finite 0]] \<and>
   reranked (searchMessages sample_deps (Some ()) ''session-1'' (Some mmr_query) 5) =
     Some (Finite (1 / 2), 5)"
proof -
  have t: "Type mmr_query = SearchTypeMMR" and l: "MMRLambda mmr_query = Finite 0"
    by (simp_all add: mmr_query_def)
  obtain dbq where e:
    "executed (searchMessages sample_deps (Some ()) ''session-1'' (Some mmr_query) 5) = Some dbq"
    using sample_run_mmr5 by blast
  have s: "Scan sample_deps dbq = (sample_rows, None)"
    by (simp add: sample_deps_def)
  have f: "filterValidMessageSearchResults sample_rows (Metadata mmr_query) =
      [sample_row (Finite 1) [Finite 1, Finite 0], sample_row (Finite 0) [Finite 0, Finite 1]]"
    by (simp add: filterValidMessageSearchResults_def sample_rows_def sample_row_def IsNaN_def
        len_is_zero_def mmr_query_def)
  have m: "MaximalMarginalRelevance sample_deps qe embs (Finite (1 / 2)) k = Inr [1, 0]"
    for qe embs k
    by (simp add: sample_deps_def)
  from searchMessages_default_lambda [OF t l e s]
  have "outcome (searchMessages sample_deps (Some ()) ''session-1'' (Some mmr_query) 5) =
     Ok [sample_row (Finite 0) [Finite 0, Finite 1], sample_row (Finite 1) [Finite 1, Finite 0]] \<and>
   reranked (searchMessages sample_deps (Some ()) ''session-1'' (Some mmr_query) 5) =
     Some (Finite (1 / 2), 5)"
    by (auto simp: f m index_ok_def DefaultMMRLambda_def)
  with t l e s show ?thesis by blast
qed

text \<open>
  Claim C9, as amended. A call never changes the text, the metadata or the type of the
  payload. It overwrites \<^verbatim>\<open>MMRLambda\<close> with \<^verbatim>\<open>DefaultMMRLambda\<close> when the search type is
  MMR, \<^verbatim>\<open>MMRLambda\<close> is 0 and the query was assembled without an error (so that it was sent
  to the database); in every other case the payload is left as it was.
\<close>

theorem searchMessages_payload:
  "payload (searchMessages d appState sessionID query limit) =
     (case query of
        None \<Rightarrow> None
      | Some q \<Rightarrow>
          Some (if executed (searchMessages d appState sessionID query limit) \<noteq> None \<and>
                   Type q = SearchTypeMMR \<and> MMRLambda q = Finite 0
                then q\<lparr>MMRLambda := DefaultMMRLambda\<rparr> else q))"
proof (cases query)
  case None
  then show ?thesis by (simp add: searchMessages_def)
next
  case (Some q)
  show ?thesis
  proof (cases "executed (searchMessages d appState sessionID (Some q) limit)")
    case None
    with searchMessages_not_executed(1) [OF None] Some show ?thesis by simp
  next
    case (Some dbq)
    obtain a q1 qe limit1 where
      a: "assembleQuery d a sessionID q limit = Ok (q1, dbq, qe, limit1)" and
      p: "payload (searchMessages d appState sessionID (Some q) limit) = Some q1"
      using searchMessages_executed [OF Some] by blast
    from assembleQuery_Ok(2) [OF a] p Some \<open>query = Some q\<close> show ?thesis by simp
  qed
qed

theorem searchMessages_payload_witness:
  "payload (searchMessages sample_deps (Some ()) ''session-1'' (Some mmr_query) 5) =
     Some (mmr_query\<lparr>MMRLambda := DefaultMMRLambda\<rparr>) \<and>
   payload (searchMessages sample_deps (Some ()) ''session-1'' (Some text_query) 5) =
     Some text_query \<and>
   payload (searchMessages sample_deps None ''session-1'' (Some mmr_query) 5) =
     Some mmr_query"
proof -
  have 1: "executed (searchMessages sample_deps (Some ()) ''session-1'' (Some mmr_query) 5) \<noteq>
      None"
    by (simp add: sample_defs mmr_query_def)
  have 2: "executed (searchMessages sample_deps None ''session-1'' (Some mmr_query) 5) = None"
    by (simp add: searchMessages_def)
  show ?thesis
    using searchMessages_payload [of sample_deps "Some ()" "''session-1''" "Some mmr_query" 5]
      searchMessages_payload [of sample_deps "Some ()" "''session-1''" "Some text_query" 5]
      searchMessages_payload [of sample_deps None "''session-1''" "Some mmr_query" 5] 1 2
    by (simp add: mmr_query_def text_query_def SearchTypeMMR_def SearchTypeSimilarity_def)
qed

text \<open>
  The claim as stated fails: after a call with an MMR payload whose \<^verbatim>\<open>MMRLambda\<close> is 0,
  the payload holds \<^verbatim>\<open>DefaultMMRLambda\<close>.
\<close>

theorem searchMessages_payload_counterexample:
  "payload (searchMessages sample_deps (Some ()) ''session-1'' (Some mmr_query) 5) \<noteq>
     Some mmr_query \<and>
   map_option MMRLambda
     (payload (searchMessages sample_deps (Some ()) ''session-1'' (Some mmr_query) 5)) =
     Some (Finite (1 / 2)) \<and>
   MMRLambda mmr_query = Finite 0"
  by (simp add: sample_defs mmr_query_def DefaultMMRLambda_def)

end
